theory Spec2Isabelle
  imports Main "HOL-Library.AList"
begin

section \<open>JavaScript values\<close>

text \<open>
  The program is JavaScript: its data are dynamically typed values. A value is a
  primitive, a function, or an object. Objects appear in two forms: \<open>JObj\<close>, \<open>JArr\<close> and
  \<open>JBuf\<close> give an object by its content (an option bag, a header table, a parsed JSON
  value, a Buffer of bytes), and \<open>JRef a\<close> is a reference to the object stored at address
  \<open>a\<close> of the heap: responses and cache snapshots are kept there, because the cache
  copies them and the copies must be told apart from the originals. A function value
  \<open>JFun p\<close> carries the value of its \<open>prototype\<close> property, the only thing the program
  ever inspects of a function. Numbers are the integers (status codes, millisecond
  timestamps and durations); strings are byte strings.
\<close>

datatype jsval =
    JUndefined
  | JNull
  | JBool bool
  | JNum int
  | JStr string
  | JBuf string
  | JArr "jsval list"
  | JObj "(string \<times> jsval) list"
  | JFun jsval
  | JRef nat

type_synonym jsobj = "string \<rightharpoonup> jsval"

type_synonym heap = "jsobj list"

text \<open>Truthiness, as \<open>if (v)\<close>, \<open>!v\<close>, \<open>&&\<close> and \<open>||\<close> test it.\<close>

fun truthy :: "jsval \<Rightarrow> bool" where
  "truthy JUndefined = False"
| "truthy JNull = False"
| "truthy (JBool b) = b"
| "truthy (JNum n) = (n \<noteq> 0)"
| "truthy (JStr s) = (s \<noteq> [])"
| "truthy (JBuf s) = True"
| "truthy (JArr xs) = True"
| "truthy (JObj kvs) = True"
| "truthy (JFun p) = True"
| "truthy (JRef a) = True"

definition js_and :: "jsval \<Rightarrow> jsval \<Rightarrow> jsval" where
  "js_and a b = (if truthy a then b else a)"

definition js_or :: "jsval \<Rightarrow> jsval \<Rightarrow> jsval" where
  "js_or a b = (if truthy a then a else b)"

fun typeof :: "jsval \<Rightarrow> string" where
  "typeof JUndefined = ''undefined''"
| "typeof JNull = ''object''"
| "typeof (JBool b) = ''boolean''"
| "typeof (JNum n) = ''number''"
| "typeof (JStr s) = ''string''"
| "typeof (JBuf s) = ''object''"
| "typeof (JArr xs) = ''object''"
| "typeof (JObj kvs) = ''object''"
| "typeof (JFun p) = ''function''"
| "typeof (JRef a) = ''object''"

text \<open>
  \<open>oget obj k\<close> is \<open>obj.k\<close> on an object given as its property map: \<open>undefined\<close> when the
  property is absent. \<open>k in obj\<close> is \<open>obj k \<noteq> None\<close>.
\<close>

definition oget :: "jsobj \<Rightarrow> string \<Rightarrow> jsval" where
  "oget obj k = (case obj k of None \<Rightarrow> JUndefined | Some v \<Rightarrow> v)"

text \<open>
  \<open>getp h v k\<close> is \<open>v.k\<close> on a value other than \<open>undefined\<close> and \<open>null\<close> (on those two
  JavaScript throws; every read of the program that can meet them is guarded in the
  model where it stands). A primitive has none of the properties this program reads.
\<close>

fun getp :: "heap \<Rightarrow> jsval \<Rightarrow> string \<Rightarrow> jsval" where
  "getp h (JRef a) k = (if a < length h then oget (h ! a) k else JUndefined)"
| "getp h (JObj kvs) k = (case map_of kvs k of None \<Rightarrow> JUndefined | Some v \<Rightarrow> v)"
| "getp h (JFun p) k = (if k = ''prototype'' then p else JUndefined)"
| "getp h v k = JUndefined"

text \<open>
  The numeric value a relational operator compares (\<open>None\<close> is NaN). It is given for
  numbers, booleans, \<open>null\<close> and \<open>undefined\<close>; the conversion of strings and objects is
  not modelled, and nothing is proved about it.
\<close>

fun toNumber :: "jsval \<Rightarrow> int option" where
  "toNumber (JNum n) = Some n"
| "toNumber (JBool b) = Some (if b then 1 else 0)"
| "toNumber JNull = Some 0"
| "toNumber JUndefined = None"

definition js_ge :: "jsval \<Rightarrow> int \<Rightarrow> bool" where
  "js_ge v n = (case toNumber v of None \<Rightarrow> False | Some c \<Rightarrow> n \<le> c)"

definition js_lt :: "jsval \<Rightarrow> int \<Rightarrow> bool" where
  "js_lt v n = (case toNumber v of None \<Rightarrow> False | Some c \<Rightarrow> c < n)"

section \<open>The outcome classifier\<close>

text \<open>
  \<^verbatim>\<open>
  function isOk(response)
  {
      const _code = (response && response.statusCode) || 0;
      return (_code >= 200 && _code < 300) || _code === 304;
  }
  \<close>
\<close>

definition isOk :: "heap \<Rightarrow> jsval \<Rightarrow> bool" where
  "isOk h response =
     (let code = js_or (js_and response (getp h response ''statusCode'')) (JNum 0)
      in (js_ge code 200 \<and> js_lt code 300) \<or> code = JNum 304)"

section \<open>The host platform\<close>

text \<open>
  What the program takes from Node and from the package \<open>jf-http-headers\<close> is not part
  of its sources. It is a parameter of the model: the functions below are arbitrary, and
  every theorem holds for each choice of them.
\<close>

datatype netreply =
    NetError jsval
  | NetResponse jsobj "string list"

record platform =
  normalize :: "string \<Rightarrow> string"
  urlParse :: "string \<Rightarrow> jsobj"
  render :: "jsval \<Rightarrow> string"
  stringify :: "jsobj \<Rightarrow> string"
  sha256 :: "string \<Rightarrow> string"
  jsonParse :: "string \<Rightarrow> jsval option"
  HttpMessage :: jsobj
  transport :: "bool \<Rightarrow> jsobj \<Rightarrow> netreply"

text \<open>
  \<^item> \<open>normalize\<close>: the spelling \<open>jf-http-headers\<close> gives a header name;
  \<^item> \<open>urlParse\<close>: \<open>url.parse\<close>, the property map of the \<open>Url\<close> object it returns;
  \<^item> \<open>render\<close>: the string JavaScript converts a number, an object or a function to;
  \<^item> \<open>stringify\<close>: \<open>JSON.stringify\<close> on an options object;
  \<^item> \<open>sha256\<close>: \<open>crypto.createHash('sha256').update(s).digest('hex')\<close>;
  \<^item> \<open>jsonParse\<close>: \<open>JSON.parse\<close>, \<open>None\<close> when it throws;
  \<^item> \<open>HttpMessage\<close>: the properties of a new \<open>http.IncomingMessage\<close>;
  \<^item> \<open>transport\<close>: what one \<open>http.request\<close> (or \<open>https.request\<close>, when the flag is
    set) ends in: an \<open>error\<close> event, or a response (its properties when it arrives, and
    the chunks of its body, read to the end).
\<close>

section \<open>The cache store\<close>

text \<open>
  \<^verbatim>\<open>
  const cache      = {};
  let cacheTime    = 0;
  const properties = ['body', 'headers', 'httpVersion', 'httpVersionMajor',
      'httpVersionMinor', 'method', 'rawHeaders', 'rawTrailers', 'statusCode',
      'statusMessage', 'trailers', 'url'];
  \<close>
  The state of the module is the cache table, the default duration, and the heap of the
  objects the cache and its callers share. An entry is \<open>{data, time}\<close>: \<open>data\<close> refers to
  the stored copy, \<open>time\<close> is the instant the entry expires.
\<close>

record entry =
  data :: jsval
  time :: int

record world =
  objs :: heap
  cache :: "string \<rightharpoonup> entry"
  cacheTime :: jsval

definition properties :: "string list" where
  "properties =
     [''body'', ''headers'', ''httpVersion'', ''httpVersionMajor'', ''httpVersionMinor'',
      ''method'', ''rawHeaders'', ''rawTrailers'', ''statusCode'', ''statusMessage'',
      ''trailers'', ''url'']"

text \<open>A new object is stored at the first free address of the heap.\<close>

definition alloc :: "jsobj \<Rightarrow> heap \<Rightarrow> nat \<times> heap" where
  "alloc obj h = (length h, h @ [obj])"

text \<open>
  \<^verbatim>\<open>
  function purgeCache()
  {
      const _current = new Date().getTime();
      Object.keys(cache).forEach(
          key => { if (cache[key].time < _current) { delete cache[key]; } }
      );
  }
  \<close>
  The reading of the clock is the argument \<open>current\<close>.
\<close>

definition purgeCache :: "int \<Rightarrow> world \<Rightarrow> world" where
  "purgeCache current w =
     w\<lparr>cache := (\<lambda>key. case cache w key of
                        None \<Rightarrow> None
                      | Some e \<Rightarrow> if time e < current then None else Some e)\<rparr>"

text \<open>
  \<^verbatim>\<open>
  function addToCache(hash, time, response)
  {
      purgeCache();
      const _serialized = {};
      properties.forEach(name => _serialized[name] = response[name]);
      cache[hash] = { data : _serialized, time : new Date().getTime() + time };
  }
  \<close>
  The clock is read twice: \<open>current\<close> by the purge, \<open>stamp\<close> for the expiry.
\<close>

definition addToCache :: "int \<Rightarrow> int \<Rightarrow> string \<Rightarrow> int \<Rightarrow> jsval \<Rightarrow> world \<Rightarrow> world" where
  "addToCache current stamp hash duration response w =
     (let w1 = purgeCache current w;
          serialized = fold (\<lambda>name obj. obj(name \<mapsto> getp (objs w1) response name))
                         properties Map.empty;
          (a, h') = alloc serialized (objs w1)
      in w1\<lparr>objs := h',
             cache := (cache w1)(hash \<mapsto> \<lparr>data = JRef a, time = stamp + duration\<rparr>)\<rparr>)"

text \<open>
  \<^verbatim>\<open>
  function fromCache(hash)
  {
      let _response;
      purgeCache();
      const _data = cache[hash];
      if (_data)
      {
          const _values = _data.data;
          _response     = new HttpMessage();
          properties.forEach(name => _response[name] = _values[name]);
      }
      return _response;
  }
  \<close>
\<close>

definition fromCache :: "platform \<Rightarrow> int \<Rightarrow> string \<Rightarrow> world \<Rightarrow> jsval \<times> world" where
  "fromCache P current hash w =
     (let w1 = purgeCache current w in
      case cache w1 hash of
        None \<Rightarrow> (JUndefined, w1)
      | Some d \<Rightarrow>
          (let values = data d;
               response = fold (\<lambda>name obj. obj(name \<mapsto> getp (objs w1) values name))
                            properties (HttpMessage P);
               (a, h') = alloc response (objs w1)
           in (JRef a, w1\<lparr>objs := h'\<rparr>)))"

section \<open>The option normalizer\<close>

datatype error = TypeError string

text \<open>The string JavaScript converts a value to, in a concatenation or a regular expression test.\<close>

fun toString :: "platform \<Rightarrow> jsval \<Rightarrow> string" where
  "toString P JUndefined = ''undefined''"
| "toString P JNull = ''null''"
| "toString P (JBool b) = (if b then ''true'' else ''false'')"
| "toString P (JStr s) = s"
| "toString P (JBuf s) = s"
| "toString P v = render P v"

subsection \<open>The header table\<close>

type_synonym headers = "(string \<times> jsval) list"

text \<open>
  Modelled from the spec: the class \<open>jfHttpHeaders\<close> of the package \<open>jf-http-headers\<close>, the
  header-mapping collaborator whose code is not in the sources. The spec says that header
  names are case-normalized through it. Its instance is a table from normalized names to
  values: the constructor (\<open>jfHttpHeaders\<close>) enters the properties of the object it is
  given, in their order; \<open>get\<close> and \<open>set\<close> (\<open>hget\<close>, \<open>hset\<close>) normalize the name they are
  given; \<open>headers\<close> is the table.
\<close>

definition hset :: "platform \<Rightarrow> headers \<Rightarrow> string \<Rightarrow> jsval \<Rightarrow> headers" where
  "hset P hs name v = AList.update (normalize P name) v hs"

definition hget :: "platform \<Rightarrow> headers \<Rightarrow> string \<Rightarrow> jsval" where
  "hget P hs name = (case map_of hs (normalize P name) of None \<Rightarrow> JUndefined | Some v \<Rightarrow> v)"

definition jfHttpHeaders :: "platform \<Rightarrow> jsval \<Rightarrow> headers" where
  "jfHttpHeaders P v =
     (case v of JObj kvs \<Rightarrow> fold (\<lambda>(k, x) hs. hset P hs k x) kvs [] | _ \<Rightarrow> [])"

subsection \<open>checkHeaders\<close>

text \<open>
  \<^verbatim>\<open>
  function checkHeaders(options)
  {
      if ('headers' in options)
      {
          const _headers = new jfHttpHeaders(options.headers);
          if (!_headers.get('Content-Type') && 'body' in options)
          {
              const _body = options.body;
              switch (typeof _body)
              {
                  case 'string':
                      _headers.set('Content-Type',
                          _body[0] === '<' ? 'text/html; charset=utf-8'
                                           : 'text/plain; charset=utf-8');
                      break;
                  case 'object':
                      _headers.set('Content-Type', 'application/json; charset=utf-8');
                      break;
              }
          }
          if (!_headers.get('Accept'))
          {
              const _contentType = _headers.get('Content-Type');
              if (_contentType)
              {
                  _headers.set('Accept', _contentType.split(';').shift())
              }
          }
          options.headers = _headers.headers;
      }
  }
  \<close>
  The function updates \<open>options\<close> in place; the model returns the updated options.
  \<open>inferContentType\<close> is the first \<open>if\<close> of the body and \<open>inferAccept\<close> the second. A truthy
  \<open>Content-Type\<close> that is not a string has no \<open>split\<close>: the call throws.
\<close>

definition startsWithLt :: "jsval \<Rightarrow> bool" where
  "startsWithLt body = (case body of JStr (c # cs) \<Rightarrow> c = CHR ''<'' | _ \<Rightarrow> False)"

definition inferContentType :: "platform \<Rightarrow> jsobj \<Rightarrow> headers \<Rightarrow> headers" where
  "inferContentType P options hs =
     (if \<not> truthy (hget P hs ''Content-Type'') \<and> options ''body'' \<noteq> None then
        (let body = oget options ''body'' in
         if typeof body = ''string'' then
           hset P hs ''Content-Type''
             (JStr (if startsWithLt body then ''text/html; charset=utf-8''
                    else ''text/plain; charset=utf-8''))
         else if typeof body = ''object'' then
           hset P hs ''Content-Type'' (JStr ''application/json; charset=utf-8'')
         else hs)
      else hs)"

definition inferAccept :: "platform \<Rightarrow> headers \<Rightarrow> error + headers" where
  "inferAccept P hs =
     (if \<not> truthy (hget P hs ''Accept'') then
        (let contentType = hget P hs ''Content-Type'' in
         if truthy contentType then
           (case contentType of
              JStr s \<Rightarrow> Inr (hset P hs ''Accept'' (JStr (takeWhile (\<lambda>c. c \<noteq> CHR '';'') s)))
            | _ \<Rightarrow> Inl (TypeError ''_contentType.split is not a function''))
         else Inr hs)
      else Inr hs)"

definition checkHeaders :: "platform \<Rightarrow> jsobj \<Rightarrow> error + jsobj" where
  "checkHeaders P options =
     (if options ''headers'' \<noteq> None then
        (case inferAccept P
                (inferContentType P options (jfHttpHeaders P (oget options ''headers''))) of
           Inl e \<Rightarrow> Inl e
         | Inr hs \<Rightarrow> Inr (options(''headers'' \<mapsto> JObj hs)))
      else Inr options)"

subsection \<open>checkUrl\<close>

text \<open>
  \<^verbatim>\<open>
  function checkUrl(options)
  {
      let _url = options.url;
      if (typeof _url === 'string')
      {
          _url = urlParse(_url);
          if (options.pathname)
          {
              _url.path = options.pathname;
              delete options.pathname;
          }
          else if (_url.query)
          {
              _url.path += '?' + _url.query;
          }
          Object.assign(options, _url);
          delete options.url;
      }
      if (options.host)
      {
          // `hostname` is preferred over `host`
          if (!options.hostname)
          {
              options.hostname = options.host;
          }
          delete options.host;
      }
      if (!options.hostname)
      {
          throw new TypeError('Wrong hostname');
      }
  }
  \<close>
  The options are updated in place before the function throws: the model returns the
  updated options together with the error, if any. \<open>mergeUrl\<close> is the first \<open>if\<close> of the
  body and \<open>aliasHost\<close> the second. \<open>Object.assign\<close> copies every property of the parsed
  URL over the options; in \<open>+=\<close> the right operand is a string, so the left one is
  converted to a string and the two are concatenated.
\<close>

definition mergeUrl :: "platform \<Rightarrow> jsobj \<Rightarrow> jsobj" where
  "mergeUrl P options =
     (case oget options ''url'' of
        JStr u \<Rightarrow>
          (let url = urlParse P u;
               (url', options') =
                  (if truthy (oget options ''pathname'') then
                     (url(''path'' \<mapsto> oget options ''pathname''), options(''pathname'' := None))
                   else if truthy (oget url ''query'') then
                     (url(''path'' \<mapsto> JStr (toString P (oget url ''path'') @ ''?'' @
                                              toString P (oget url ''query''))),
                      options)
                   else (url, options))
           in (options' ++ url')(''url'' := None))
      | _ \<Rightarrow> options)"

definition aliasHost :: "jsobj \<Rightarrow> jsobj" where
  "aliasHost options =
     (if truthy (oget options ''host'') then
        (if \<not> truthy (oget options ''hostname'')
         then options(''hostname'' \<mapsto> oget options ''host'')
         else options)(''host'' := None)
      else options)"

definition checkUrl :: "platform \<Rightarrow> jsobj \<Rightarrow> error option \<times> jsobj" where
  "checkUrl P options =
     (let options' = aliasHost (mergeUrl P options)
      in (if \<not> truthy (oget options' ''hostname'') then Some (TypeError ''Wrong hostname'')
          else None,
          options'))"

section \<open>The request executor\<close>

text \<open>
  \<open>/[+/]json(;|$)/.test(s)\<close>: somewhere in \<open>s\<close>, a \<open>+\<close> or a \<open>/\<close> is followed by \<open>json\<close> and then
  by a \<open>;\<close> or by the end of the string.
\<close>

fun jsonRe :: "string \<Rightarrow> bool" where
  "jsonRe [] = False"
| "jsonRe (c # cs) =
     (((c = CHR ''+'' \<or> c = CHR ''/'') \<and> take 4 cs = ''json'' \<and>
       (case drop 4 cs of [] \<Rightarrow> True | d # ds \<Rightarrow> d = CHR '';''))
      \<or> jsonRe cs)"

definition buildHash :: "platform \<Rightarrow> string \<Rightarrow> string" where
  "buildHash P content = sha256 P content"

text \<open>
  One call of \<open>doRequest\<close> reads the clock up to three times: in the purge of the lookup,
  and, when a response has arrived, in the purge and in the stamp of the insertion.
\<close>

record clock =
  t_lookup :: int
  t_purge :: int
  t_stamp :: int

text \<open>
  What a call does to the outside: it opens a request (over HTTPS when the flag is set,
  with the options it passes on), writes a body to it, ends it.
\<close>

datatype io = IoRequest bool jsobj | IoWrite jsval | IoEnd

text \<open>The continuation a call fires, \<open>ok(response)\<close> or \<open>error(err)\<close>, with its argument.\<close>

datatype outcome = Success jsval | Failure jsval

text \<open>
  The handler of the response's \<open>end\<close> event:
  \<^verbatim>\<open>
  let _body          = Buffer.concat(_chunks);
  const _contentType = new jfHttpHeaders(response.headers).get('Content-Type');
  // application/json, application/vnd.api+json, text/json, etc.
  if ((/[+/]json(;|$)/).test(_contentType))
  {
      try { _body = JSON.parse('' + _body); } catch (e) { _body = {}; }
  }
  response.body = _body;
  if (_hash)
  {
      addToCache(_hash, _cacheTime, response);
  }
  ok(response)
  \<close>
  The response is the object at address \<open>r\<close>. \<open>decodeBody\<close> is the value given to
  \<open>response.body\<close>. The duration handed to \<open>addToCache\<close> is added to a number there: it is
  read with \<open>toNumber\<close> (a duration that is a string would be concatenated instead, which
  is outside the model; not-a-number comes from \<open>undefined\<close> only, with which \<open>doRequest\<close>
  computes no hash).
\<close>

definition decodeBody :: "platform \<Rightarrow> jsval \<Rightarrow> string list \<Rightarrow> jsval" where
  "decodeBody P headers chunks =
     (let contentType = hget P (jfHttpHeaders P headers) ''Content-Type'' in
      if jsonRe (toString P contentType) then
        (case jsonParse P (concat chunks) of Some v \<Rightarrow> v | None \<Rightarrow> JObj [])
      else JBuf (concat chunks))"

definition onEnd ::
  "platform \<Rightarrow> clock \<Rightarrow> jsval \<Rightarrow> jsval \<Rightarrow> nat \<Rightarrow> string list \<Rightarrow> world \<Rightarrow> outcome \<times> world" where
  "onEnd P T hash duration r chunks w =
     (let body = decodeBody P (getp (objs w) (JRef r) ''headers'') chunks;
          w1 = w\<lparr>objs := (objs w)[r := (objs w ! r)(''body'' \<mapsto> body)]\<rparr>;
          w2 = (if truthy hash then
                  (case toNumber duration of
                     Some n \<Rightarrow> addToCache (t_purge T) (t_stamp T) (toString P hash) n (JRef r) w1
                   | None \<Rightarrow> w1)
                else w1)
      in (Success (JRef r), w2))"

text \<open>
  \<^verbatim>\<open>
  function doRequest(options, ok, error)
  {
      const _cacheTime = 'cacheTime' in options ? options.cacheTime : cacheTime;
      let _hash;
      let _response;
      if (_cacheTime)
      {
          _hash     = buildHash(JSON.stringify(options));
          _response = fromCache(_hash);
      }
      if (_response)
      {
          ok(_response);
      }
      else
      {
          const _httpRequest = options.protocol === 'https:' ? httpsRequest : httpRequest;
          const _request     = _httpRequest(options, response => { ... });
          _request.on('error', err => error(err));
          if ('body' in options)
          {
              _request.write(options.body, 'utf8');
          }
          _request.end();
      }
  }
  \<close>
  The model runs one call to its end: it returns the continuation that is fired, the
  trace of what was done to the network, and the state of the module afterwards. The
  reply of the network is the platform's; a response is stored in the heap when it
  arrives. \<open>traffic\<close> is the trace of the \<open>else\<close> branch: the request is opened, the body is
  written when the options have one, the request is ended.
\<close>

definition traffic :: "jsobj \<Rightarrow> io list" where
  "traffic options =
     IoRequest (oget options ''protocol'' = JStr ''https:'') options #
       (if options ''body'' \<noteq> None then [IoWrite (oget options ''body'')] else []) @ [IoEnd]"

definition doRequest :: "platform \<Rightarrow> clock \<Rightarrow> world \<Rightarrow> jsobj \<Rightarrow> outcome \<times> io list \<times> world" where
  "doRequest P T w options =
     (let duration = (if options ''cacheTime'' \<noteq> None then oget options ''cacheTime''
                      else cacheTime w);
          (hash, response, w1) =
             (if truthy duration then
                (let h = buildHash P (stringify P options);
                     (res, w') = fromCache P (t_lookup T) h w
                 in (JStr h, res, w'))
              else (JUndefined, JUndefined, w))
      in if truthy response then (Success response, [], w1)
         else
           (case transport P (oget options ''protocol'' = JStr ''https:'') options of
              NetError err \<Rightarrow> (Failure err, traffic options, w1)
            | NetResponse msg chunks \<Rightarrow>
                (let (r, h') = alloc msg (objs w1);
                     (out, w2) = onEnd P T hash duration r chunks (w1\<lparr>objs := h'\<rparr>)
                 in (out, traffic options, w2))))"

section \<open>The delivery adapters and the entry point\<close>

text \<open>
  \<^verbatim>\<open>
  function isPromise(Class)
  {
      return typeof Class                 === 'function' &&
             typeof Class.prototype       === 'object' &&
             typeof Class.prototype.catch === 'function' &&
             typeof Class.prototype.then  === 'function';
  }
  \<close>
  \<open>typeof null\<close> is \<open>'object'\<close>: on a function whose prototype is \<open>null\<close> the third test
  reads a property of \<open>null\<close> and throws.
\<close>

definition isPromise :: "heap \<Rightarrow> jsval \<Rightarrow> error + bool" where
  "isPromise h Class =
     (if typeof Class = ''function'' \<and> typeof (getp h Class ''prototype'') = ''object'' then
        (if getp h Class ''prototype'' = JNull
         then Inl (TypeError ''Cannot read property catch of null'')
         else Inr (typeof (getp h (getp h Class ''prototype'') ''catch'') = ''function'' \<and>
                   typeof (getp h (getp h Class ''prototype'') ''then'') = ''function''))
      else Inr False)"

text \<open>
  What reaches the caller: \<open>Called cb payload kind\<close> is the call \<open>cb(payload, kind)\<close>,
  \<open>Emitted kind payload\<close> is \<open>_events.emit(kind, payload)\<close>, \<open>Resolved\<close> and \<open>Rejected\<close> are
  the calls of the two functions a promise hands to its executor.
\<close>

datatype delivery =
    Called jsval jsval string
  | Emitted string jsval
  | Resolved jsval
  | Rejected jsval

text \<open>
  \<^verbatim>\<open>
  function typeCallback(options, cb)
  {
      doRequest(
          options,
          response => { cb(response, isOk(response) ? 'request-ok' : 'request-fail'); },
          error => cb(error, 'request-error')
      );
  }
  function typeEvents(options)
  {
      const _events = new Events();
      doRequest(
          options,
          response => _events.emit(isOk(response) ? 'request-ok' : 'request-fail', response),
          error => _events.emit('request-error', error)
      );
      return _events;
  }
  function typePromise(Promise, options)
  {
      return new Promise((resolve, reject) => doRequest(options, resolve, reject));
  }
  \<close>
\<close>

definition typeCallback ::
  "platform \<Rightarrow> clock \<Rightarrow> world \<Rightarrow> jsobj \<Rightarrow> jsval \<Rightarrow> delivery \<times> io list \<times> world" where
  "typeCallback P T w options cb =
     (case doRequest P T w options of
        (Success response, sent, w') \<Rightarrow>
          (Called cb response
             (if isOk (objs w') response then ''request-ok'' else ''request-fail''), sent, w')
      | (Failure err, sent, w') \<Rightarrow> (Called cb err ''request-error'', sent, w'))"

definition typeEvents ::
  "platform \<Rightarrow> clock \<Rightarrow> world \<Rightarrow> jsobj \<Rightarrow> delivery \<times> io list \<times> world" where
  "typeEvents P T w options =
     (case doRequest P T w options of
        (Success response, sent, w') \<Rightarrow>
          (Emitted (if isOk (objs w') response then ''request-ok'' else ''request-fail'')
             response, sent, w')
      | (Failure err, sent, w') \<Rightarrow> (Emitted ''request-error'' err, sent, w'))"

definition typePromise ::
  "platform \<Rightarrow> clock \<Rightarrow> world \<Rightarrow> jsval \<Rightarrow> jsobj \<Rightarrow> delivery \<times> io list \<times> world" where
  "typePromise P T w Promise options =
     (case doRequest P T w options of
        (Success response, sent, w') \<Rightarrow> (Resolved response, sent, w')
      | (Failure err, sent, w') \<Rightarrow> (Rejected err, sent, w'))"

text \<open>
  \<^verbatim>\<open>
  module.exports = function jfHttpRequest(options)
  {
      let _result;
      if (options)
      {
          if (typeof options === 'string')
          {
              options = { url : options };
          }
          checkUrl(options);
          checkHeaders(options);
          const _type = options.requestType;
          delete options.requestType;
          if (typeof _type === 'function')
          {
              if (isPromise(_type))
              {
                  _result = typePromise(_type, options);
              }
              else
              {
                  typeCallback(options, _type);
              }
          }
          else
          {
              _result = typeEvents(options);
          }
      }
      else
      {
          throw new TypeError('Wrong options');
      }
      return _result;
  }
  \<close>
  A run of the entry point is what it throws, what it returns (nothing, the event
  emitter, or an instance of the promise class), what is delivered to the caller, what
  was done to the network, and the state of the module afterwards.
\<close>

datatype retval = RetUndefined | RetEvents | RetPromise jsval

record run =
  thrown :: "error option"
  returned :: retval
  delivered :: "delivery list"
  requests :: "io list"
  final :: world

definition throws :: "error \<Rightarrow> world \<Rightarrow> run" where
  "throws e w =
     \<lparr>thrown = Some e, returned = RetUndefined, delivered = [], requests = [], final = w\<rparr>"

definition returns :: "retval \<Rightarrow> delivery \<times> io list \<times> world \<Rightarrow> run" where
  "returns v res =
     (case res of (d, sent, w') \<Rightarrow>
        \<lparr>thrown = None, returned = v, delivered = [d], requests = sent, final = w'\<rparr>)"

text \<open>
  The options the entry point works on: a string stands for \<open>{ url : options }\<close>, an
  object is taken by its content, at the time of the call (the updates the entry point
  makes to the object of its caller are not followed), and any other truthy value has
  none of the properties read.
\<close>

definition optionsOf :: "heap \<Rightarrow> jsval \<Rightarrow> jsobj" where
  "optionsOf h v =
     (case v of
        JStr s \<Rightarrow> [''url'' \<mapsto> v]
      | JObj kvs \<Rightarrow> map_of kvs
      | JRef a \<Rightarrow> (if a < length h then h ! a else Map.empty)
      | _ \<Rightarrow> Map.empty)"

definition jfHttpRequest :: "platform \<Rightarrow> clock \<Rightarrow> world \<Rightarrow> jsval \<Rightarrow> run" where
  "jfHttpRequest P T w options =
     (if truthy options then
        (case checkUrl P (optionsOf (objs w) options) of
           (Some e, options1) \<Rightarrow> throws e w
         | (None, options1) \<Rightarrow>
             (case checkHeaders P options1 of
                Inl e \<Rightarrow> throws e w
              | Inr options2 \<Rightarrow>
                  (let type = oget options2 ''requestType'';
                       options3 = options2(''requestType'' := None)
                   in if typeof type = ''function'' then
                        (case isPromise (objs w) type of
                           Inl e \<Rightarrow> throws e w
                         | Inr True \<Rightarrow>
                             returns (RetPromise type) (typePromise P T w type options3)
                         | Inr False \<Rightarrow>
                             returns RetUndefined (typeCallback P T w options3 type))
                      else returns RetEvents (typeEvents P T w options3))))
      else throws (TypeError ''Wrong options'') w)"

section \<open>Observations and a sample host\<close>

text \<open>
  The value normalized options hold for a header, read through the table; and an
  assignment to the properties of the object at an address, which leaves it with the
  property map \<open>obj\<close>.
\<close>

definition header :: "platform \<Rightarrow> jsobj \<Rightarrow> string \<Rightarrow> jsval" where
  "header P options name =
     (case oget options ''headers'' of JObj hs \<Rightarrow> hget P hs name | _ \<Rightarrow> JUndefined)"

definition mutate :: "nat \<Rightarrow> jsobj \<Rightarrow> world \<Rightarrow> world" where
  "mutate a obj w = w\<lparr>objs := (objs w)[a := obj]\<rparr>"

text \<open>
  A host on which the model runs on concrete requests. \<open>sampleUrl\<close> is \<open>url.parse\<close> on the
  two URLs used below; it reads every other string as a bare path, as \<open>url.parse\<close> does
  with a string that has no scheme, query or fragment. The server answers \<open>/posts/1\<close> with a JSON document and any other path with
  status 404 and a body that is not JSON; any other host cannot be reached. The
  serializer and the digest are stand-ins that tell the sample requests apart.
\<close>

definition sampleUrl :: "string \<Rightarrow> jsobj" where
  "sampleUrl u =
     (if u = ''http://jsonplaceholder.typicode.com/posts/1'' then
        [''protocol'' \<mapsto> JStr ''http:'', ''slashes'' \<mapsto> JBool True, ''auth'' \<mapsto> JNull,
         ''host'' \<mapsto> JStr ''jsonplaceholder.typicode.com'', ''port'' \<mapsto> JNull,
         ''hostname'' \<mapsto> JStr ''jsonplaceholder.typicode.com'', ''hash'' \<mapsto> JNull,
         ''search'' \<mapsto> JNull, ''query'' \<mapsto> JNull, ''pathname'' \<mapsto> JStr ''/posts/1'',
         ''path'' \<mapsto> JStr ''/posts/1'', ''href'' \<mapsto> JStr u]
      else if u = ''http://jsonplaceholder.typicode.com/posts?userId=1'' then
        [''protocol'' \<mapsto> JStr ''http:'', ''slashes'' \<mapsto> JBool True, ''auth'' \<mapsto> JNull,
         ''host'' \<mapsto> JStr ''jsonplaceholder.typicode.com'', ''port'' \<mapsto> JNull,
         ''hostname'' \<mapsto> JStr ''jsonplaceholder.typicode.com'', ''hash'' \<mapsto> JNull,
         ''search'' \<mapsto> JStr ''?userId=1'', ''query'' \<mapsto> JStr ''userId=1'',
         ''pathname'' \<mapsto> JStr ''/posts'', ''path'' \<mapsto> JStr ''/posts?userId=1'',
         ''href'' \<mapsto> JStr u]
      else
        [''protocol'' \<mapsto> JNull, ''slashes'' \<mapsto> JNull, ''auth'' \<mapsto> JNull,
         ''host'' \<mapsto> JNull, ''port'' \<mapsto> JNull, ''hostname'' \<mapsto> JNull, ''hash'' \<mapsto> JNull,
         ''search'' \<mapsto> JNull, ''query'' \<mapsto> JNull, ''pathname'' \<mapsto> JStr u,
         ''path'' \<mapsto> JStr u, ''href'' \<mapsto> JStr u])"

definition sampleNormalize :: "string \<Rightarrow> string" where
  "sampleNormalize name =
     (if name = ''content-type'' then ''Content-Type''
      else if name = ''accept'' then ''Accept''
      else name)"

definition sampleParse :: "string \<Rightarrow> jsval option" where
  "sampleParse s =
     (if s = ''[1,2]'' then Some (JArr [JNum 1, JNum 2])
      else if s = ''{}'' then Some (JObj [])
      else None)"

definition sampleTransport :: "bool \<Rightarrow> jsobj \<Rightarrow> netreply" where
  "sampleTransport https options =
     (if oget options ''hostname'' = JStr ''jsonplaceholder.typicode.com'' then
        (if oget options ''path'' = JStr ''/posts/1'' then
           NetResponse
             [''statusCode'' \<mapsto> JNum 200, ''statusMessage'' \<mapsto> JStr ''OK'',
              ''headers'' \<mapsto> JObj [(''content-type'', JStr ''application/json; charset=utf-8'')],
              ''complete'' \<mapsto> JBool True]
             [''[1,'', ''2]'']
         else
           NetResponse
             [''statusCode'' \<mapsto> JNum 404, ''statusMessage'' \<mapsto> JStr ''Not Found'',
              ''headers'' \<mapsto> JObj [(''content-type'', JStr ''application/json'')],
              ''complete'' \<mapsto> JBool True]
             [''not json''])
      else NetError (JStr ''getaddrinfo ENOTFOUND''))"

definition sampleHost :: platform where
  "sampleHost =
     \<lparr>normalize = sampleNormalize,
      urlParse = sampleUrl,
      render = (\<lambda>v. ''[object Object]''),
      stringify = (\<lambda>options. case oget options ''path'' of JStr p \<Rightarrow> p | _ \<Rightarrow> []),
      sha256 = (\<lambda>s. ''sha256:'' @ s),
      jsonParse = sampleParse,
      HttpMessage = [''complete'' \<mapsto> JBool False],
      transport = sampleTransport\<rparr>"

definition sampleClock :: clock where
  "sampleClock = \<lparr>t_lookup = 1000, t_purge = 1020, t_stamp = 1020\<rparr>"

text \<open>
  A heap with a response at address 0 whose body is the object at address 1, and which
  holds a reference to its connection, a property outside the list.
\<close>

definition sampleWorld :: world where
  "sampleWorld =
     \<lparr>objs = [[''statusCode'' \<mapsto> JNum 200, ''body'' \<mapsto> JRef 1, ''socket'' \<mapsto> JStr ''live''],
              [''id'' \<mapsto> JNum 1]],
      cache = Map.empty,
      cacheTime = JNum 0\<rparr>"

definition emptyWorld :: world where
  "emptyWorld = \<lparr>objs = [], cache = Map.empty, cacheTime = JNum 0\<rparr>"

text \<open>
  Normalized options that ask for one minute of caching, the same without caching, and
  options for a document the server does not have; and the state of the module after one
  request with the first on the empty state, whose response came from the network.
\<close>

definition sampleOptions :: jsobj where
  "sampleOptions =
     [''hostname'' \<mapsto> JStr ''jsonplaceholder.typicode.com'', ''path'' \<mapsto> JStr ''/posts/1'',
      ''cacheTime'' \<mapsto> JNum 60000]"

definition sampleGet :: jsobj where
  "sampleGet =
     [''hostname'' \<mapsto> JStr ''jsonplaceholder.typicode.com'', ''path'' \<mapsto> JStr ''/posts/1'']"

definition sampleMissing :: jsobj where
  "sampleMissing =
     [''hostname'' \<mapsto> JStr ''jsonplaceholder.typicode.com'',
      ''path'' \<mapsto> JStr ''/posts/100000'']"

definition cachedWorld :: world where
  "cachedWorld =
     snd (snd (doRequest sampleHost \<lparr>t_lookup = 0, t_purge = 10, t_stamp = 10\<rparr>
                 emptyWorld sampleOptions))"

section \<open>Properties of the outcome classifier\<close>

lemma getp_falsy: "\<not> truthy v \<Longrightarrow> getp h v k = JUndefined"
  by (cases v) auto

text \<open>
  C1. For every response, the classifier answers Ok exactly when the status code \<open>c\<close>
  satisfies \<open>200 \<le> c < 300\<close> or \<open>c = 304\<close>, and Fail for every other value, an absent
  or zero status code included. A status code is a number, or it is absent (\<open>undefined\<close>
  or \<open>null\<close>, also when there is no response at all).
\<close>

theorem isOk_iff:
  assumes "getp h response ''statusCode'' \<in> {JUndefined, JNull} \<union> range JNum"
  shows "isOk h response \<longleftrightarrow>
    (\<exists>c. getp h response ''statusCode'' = JNum c \<and> ((200 \<le> c \<and> c < 300) \<or> c = 304))"
  using assms
  by (cases "truthy response")
     (auto simp: isOk_def js_or_def js_and_def js_ge_def js_lt_def Let_def getp_falsy)

theorem isOk_iff_witness:
  "isOk [[''statusCode'' \<mapsto> JNum 204]] (JRef 0) \<and>
   \<not> isOk [[''statusCode'' \<mapsto> JNum 404]] (JRef 0) \<and>
   \<not> isOk [[''statusCode'' \<mapsto> JNum 0]] (JRef 0) \<and>
   \<not> isOk [Map.empty] (JRef 0) \<and>
   \<not> isOk [] JUndefined"
  using isOk_iff [of "[[''statusCode'' \<mapsto> JNum 204]]" "JRef 0"]
    isOk_iff [of "[[''statusCode'' \<mapsto> JNum 404]]" "JRef 0"]
    isOk_iff [of "[[''statusCode'' \<mapsto> JNum 0]]" "JRef 0"]
    isOk_iff [of "[Map.empty]" "JRef 0"]
    isOk_iff [of "[]" JUndefined]
  by (simp add: oget_def)

section \<open>Properties of the cache store\<close>

lemma fold_fill:
  "fold (\<lambda>name obj. obj(name \<mapsto> f name)) ns m =
     (\<lambda>k. if k \<in> set ns then Some (f k) else m k)"
  by (induction ns arbitrary: m) (auto simp: fun_eq_iff)

lemma objs_purgeCache: "objs (purgeCache c w) = objs w"
  by (simp add: purgeCache_def)

lemma cache_purgeCache:
  "cache (purgeCache c w) k =
     (case cache w k of None \<Rightarrow> None | Some e \<Rightarrow> if time e < c then None else Some e)"
  by (simp add: purgeCache_def)

lemma cache_addToCache:
  "cache (addToCache c s h t r w) k =
     (if k = h then Some \<lparr>data = JRef (length (objs w)), time = s + t\<rparr>
      else cache (purgeCache c w) k)"
  by (simp add: addToCache_def alloc_def objs_purgeCache Let_def)

lemma objs_addToCache:
  "objs (addToCache c s h t r w) =
     objs w @ [\<lambda>k. if k \<in> set properties then Some (getp (objs w) r k) else None]"
  unfolding addToCache_def alloc_def Let_def objs_purgeCache fold_fill by simp

lemma fromCache_hit:
  "cache (purgeCache c w) h = Some e \<Longrightarrow>
   fromCache P c h w =
     (JRef (length (objs w)),
      (purgeCache c w)\<lparr>objs := objs w @
         [\<lambda>k. if k \<in> set properties then Some (getp (objs w) (data e) k)
              else HttpMessage P k]\<rparr>)"
  unfolding fromCache_def alloc_def Let_def objs_purgeCache fold_fill by simp

lemma fromCache_miss:
  "cache (purgeCache c w) h = None \<Longrightarrow> fromCache P c h w = (JUndefined, purgeCache c w)"
  unfolding fromCache_def Let_def by simp

lemma fromCache_hit_fields:
  assumes "cache (purgeCache c w) h = Some e"
  shows "fst (fromCache P c h w) = JRef (length (objs w))"
    and "objs (snd (fromCache P c h w)) =
           objs w @ [\<lambda>k. if k \<in> set properties then Some (getp (objs w) (data e) k)
                         else HttpMessage P k]"
    and "cache (snd (fromCache P c h w)) = cache (purgeCache c w)"
  by (simp_all add: fromCache_hit [OF assms] objs_purgeCache)

lemma getp_snapshot:
  "name \<in> set properties \<Longrightarrow>
   getp (h @ [\<lambda>k. if k \<in> set properties then Some (f k) else g k]) (JRef (length h)) name
     = f name"
  by (simp add: oget_def)

text \<open>
  C9. For every state of the store, purging twice in a row, with no insertion between,
  leaves the same contents as purging once: with the same reading of the clock the second
  purge changes nothing, and with any two readings the two purges are the one purge at
  the later reading.
\<close>

theorem purge_twice:
  "purgeCache c (purgeCache c w) = purgeCache c w \<and>
   purgeCache c2 (purgeCache c1 w) = purgeCache (max c1 c2) w"
  by (cases w) (auto simp: purgeCache_def fun_eq_iff split: option.splits)

theorem purge_twice_witness:
  "purgeCache 1001 (purgeCache 1000 sampleWorld) = purgeCache 1001 sampleWorld \<and>
   purgeCache 1000 (purgeCache 1000 sampleWorld) = purgeCache 1000 sampleWorld"
  using purge_twice [of 1000 sampleWorld 1001 1000] by simp

text \<open>
  C5. After a response is inserted under \<open>h\<close> with duration \<open>t\<close>, at the instant \<open>stamp\<close>,
  a lookup of \<open>h\<close> at an instant up to \<open>stamp + t\<close> returns a new object whose listed
  properties are those of the response, and a lookup after \<open>stamp + t\<close> returns
  \<open>undefined\<close>. This holds for every duration, the positive ones included.
\<close>

theorem cache_round_trip:
  "(lookup \<le> stamp + t \<longrightarrow>
      (\<exists>a. fst (fromCache P lookup h (addToCache current stamp h t response w)) = JRef a \<and>
         (\<forall>name \<in> set properties.
            getp (objs (snd (fromCache P lookup h (addToCache current stamp h t response w))))
              (JRef a) name = getp (objs w) response name))) \<and>
   (stamp + t < lookup \<longrightarrow>
      fst (fromCache P lookup h (addToCache current stamp h t response w)) = JUndefined)"
proof (intro conjI impI)
  let ?w1 = "addToCache current stamp h t response w"
  let ?e = "\<lparr>data = JRef (length (objs w)), time = stamp + t\<rparr>"
  assume "lookup \<le> stamp + t"
  then have hit: "cache (purgeCache lookup ?w1) h = Some ?e"
    by (simp add: cache_purgeCache cache_addToCache)
  have stored: "getp (objs ?w1) (JRef (length (objs w))) name = getp (objs w) response name"
    if "name \<in> set properties" for name
    using that by (simp add: objs_addToCache oget_def)
  have "getp (objs (snd (fromCache P lookup h ?w1))) (JRef (length (objs ?w1))) name =
          getp (objs w) response name" if "name \<in> set properties" for name
    using that
    by (simp add: fromCache_hit_fields(2) [OF hit] getp_snapshot stored del: getp.simps)
  then show "\<exists>a. fst (fromCache P lookup h ?w1) = JRef a \<and>
         (\<forall>name \<in> set properties.
            getp (objs (snd (fromCache P lookup h ?w1))) (JRef a) name =
            getp (objs w) response name)"
    using fromCache_hit_fields(1) [OF hit] by blast
next
  let ?w1 = "addToCache current stamp h t response w"
  assume "stamp + t < lookup"
  then have "cache (purgeCache lookup ?w1) h = None"
    by (simp add: cache_purgeCache cache_addToCache)
  then show "fst (fromCache P lookup h ?w1) = JUndefined"
    by (simp add: fromCache_miss)
qed

theorem cache_round_trip_witness:
  "fst (fromCache sampleHost 1060 ''k'' (addToCache 1000 1000 ''k'' 60 (JRef 0) sampleWorld))
     = JRef 3 \<and>
   getp (objs (snd (fromCache sampleHost 1060 ''k''
                      (addToCache 1000 1000 ''k'' 60 (JRef 0) sampleWorld))))
     (JRef 3) ''statusCode'' = JNum 200 \<and>
   getp (objs (snd (fromCache sampleHost 1060 ''k''
                      (addToCache 1000 1000 ''k'' 60 (JRef 0) sampleWorld))))
     (JRef 3) ''socket'' = JUndefined \<and>
   fst (fromCache sampleHost 1061 ''k'' (addToCache 1000 1000 ''k'' 60 (JRef 0) sampleWorld))
     = JUndefined"
proof -
  let ?w = "addToCache 1000 1000 ''k'' 60 (JRef 0) sampleWorld"
  have late: "fst (fromCache sampleHost 1061 ''k'' ?w) = JUndefined"
    by (rule cache_round_trip [THEN conjunct2, THEN mp]) simp
  have within: "\<exists>a. fst (fromCache sampleHost 1060 ''k'' ?w) = JRef a \<and>
      (\<forall>name \<in> set properties.
         getp (objs (snd (fromCache sampleHost 1060 ''k'' ?w))) (JRef a) name =
         getp (objs sampleWorld) (JRef 0) name)"
    by (rule cache_round_trip [THEN conjunct1, THEN mp]) simp
  have len: "length (objs sampleWorld) = 2"
    by (simp add: sampleWorld_def)
  have hit: "cache (purgeCache 1060 ?w) ''k'' = Some \<lparr>data = JRef 2, time = 1060\<rparr>"
    by (simp add: cache_purgeCache cache_addToCache len)
  have obj: "objs ?w = objs sampleWorld @ [\<lambda>k. if k \<in> set properties then Some (getp (objs sampleWorld) (JRef 0) k) else None]"
    by (rule objs_addToCache)
  have early: "fst (fromCache sampleHost 1060 ''k'' ?w) = JRef 3"
    by (simp add: fromCache_hit_fields(1) [OF hit] obj len)
  have c: "getp (objs (snd (fromCache sampleHost 1060 ''k'' ?w))) (JRef 3) ''statusCode'' = JNum 200"
    unfolding fromCache_hit_fields(2) [OF hit] obj
    by (simp add: properties_def sampleWorld_def oget_def)
  have d: "getp (objs (snd (fromCache sampleHost 1060 ''k'' ?w))) (JRef 3) ''socket'' = JUndefined"
    unfolding fromCache_hit_fields(2) [OF hit] obj
    by (simp add: properties_def sampleWorld_def sampleHost_def oget_def)
  show ?thesis using within early c d late by simp
qed

lemma objs_mutate: "objs (mutate a obj w) = (objs w)[a := obj]"
  by (simp add: mutate_def)

lemma cache_purge_mutate: "cache (purgeCache c (mutate a obj w)) = cache (purgeCache c w)"
  by (simp add: purgeCache_def mutate_def)

lemma getp_append_update:
  "a < length h \<Longrightarrow> length h \<le> b \<Longrightarrow>
   getp ((h @ xs)[b := obj]) (JRef a) k = getp h (JRef a) k"
  by (simp add: nth_append nth_list_update)

lemma fromCache_fields:
  assumes "cache (purgeCache c w) h = Some e" and "name \<in> set properties"
  shows "getp (objs (snd (fromCache P c h w))) (JRef (length (objs w))) name =
         getp (objs w) (data e) name"
  using assms(2) unfolding fromCache_hit_fields(2) [OF assms(1)] by (rule getp_snapshot)

text \<open>
  C10. The insertion stores a copy of the response restricted to the listed properties,
  at a new address, and every lookup builds a new object from the stored copy. So an
  assignment to the properties of the original response after the insertion (\<open>obj1\<close> is
  what it is left with) does not change the stored copy, and an assignment to the
  properties of an object a lookup returned (\<open>obj2\<close>) does not change what a later lookup
  of the same hash returns: both lookups return the properties the response had when
  it was inserted.
\<close>

theorem snapshot_isolated:
  assumes "r < length (objs w)" and "t1 \<le> s + t" and "t2 \<le> s + t"
  shows
    "cache (addToCache c s h t (JRef r) w) h = Some \<lparr>data = JRef (length (objs w)), time = s + t\<rparr> \<and>
     (\<forall>name. getp (objs (mutate r obj1 (addToCache c s h t (JRef r) w))) (JRef (length (objs w))) name =
        (if name \<in> set properties then getp (objs w) (JRef r) name else JUndefined)) \<and>
     fst (fromCache P t1 h (mutate r obj1 (addToCache c s h t (JRef r) w))) = JRef (Suc (length (objs w))) \<and>
     (\<forall>name \<in> set properties.
        getp (objs (snd (fromCache P t1 h (mutate r obj1 (addToCache c s h t (JRef r) w)))))
          (JRef (Suc (length (objs w)))) name
        = getp (objs w) (JRef r) name) \<and>
     fst (fromCache P t2 h
            (mutate (Suc (length (objs w))) obj2
               (snd (fromCache P t1 h (mutate r obj1 (addToCache c s h t (JRef r) w))))))
       = JRef (Suc (Suc (length (objs w)))) \<and>
     (\<forall>name \<in> set properties.
        getp (objs (snd (fromCache P t2 h
            (mutate (Suc (length (objs w))) obj2
               (snd (fromCache P t1 h (mutate r obj1 (addToCache c s h t (JRef r) w))))))))
          (JRef (Suc (Suc (length (objs w))))) name
        = getp (objs w) (JRef r) name)"
proof -
  let ?n = "length (objs w)"
  let ?e = "\<lparr>data = JRef ?n, time = s + t\<rparr>"
  let ?w1 = "addToCache c s h t (JRef r) w"
  let ?w2 = "mutate r obj1 ?w1"
  let ?w3 = "snd (fromCache P t1 h ?w2)"
  let ?w4 = "mutate (Suc ?n) obj2 ?w3"
  let ?w5 = "snd (fromCache P t2 h ?w4)"
  let ?copy = "\<lambda>k. if k \<in> set properties then Some (getp (objs w) (JRef r) k) else None"
  have entry: "cache ?w1 h = Some ?e"
    by (simp add: cache_addToCache)
  have objs1: "objs ?w1 = objs w @ [?copy]"
    by (rule objs_addToCache)
  have objs2: "objs ?w2 = (objs w)[r := obj1] @ [?copy]"
    using assms(1) by (simp add: objs_mutate objs1 list_update_append)
  have len2: "length (objs ?w2) = Suc ?n"
    by (simp add: objs2)
  have stored2: "getp (objs ?w2) (JRef ?n) name =
      (if name \<in> set properties then getp (objs w) (JRef r) name else JUndefined)" for name
    using assms(1) by (simp add: objs2 oget_def nth_append)
  have hit1: "cache (purgeCache t1 ?w2) h = Some ?e"
    using assms(2) by (simp add: cache_purge_mutate cache_purgeCache entry)
  have fst1: "fst (fromCache P t1 h ?w2) = JRef (Suc ?n)"
    by (simp add: fromCache_hit_fields(1) [OF hit1] len2)
  have fields1: "getp (objs ?w3) (JRef (Suc ?n)) name = getp (objs w) (JRef r) name"
    if "name \<in> set properties" for name
  proof -
    have "getp (objs ?w3) (JRef (length (objs ?w2))) name = getp (objs ?w2) (data ?e) name"
      by (rule fromCache_fields [OF hit1 that])
    then show ?thesis
      using that by (simp add: len2 stored2 del: getp.simps)
  qed
  have objs3: "objs ?w3 = objs ?w2 @
      [\<lambda>k. if k \<in> set properties then Some (getp (objs ?w2) (data ?e) k) else HttpMessage P k]"
    by (rule fromCache_hit_fields(2) [OF hit1])
  have len3: "length (objs ?w3) = Suc (Suc ?n)"
    by (simp add: objs3 len2)
  have cache3: "cache ?w3 h = Some ?e"
    by (simp add: fromCache_hit_fields(3) [OF hit1] hit1)
  have hit2: "cache (purgeCache t2 ?w4) h = Some ?e"
    using assms(3) by (simp add: cache_purge_mutate cache_purgeCache cache3)
  have len4: "length (objs ?w4) = Suc (Suc ?n)"
    by (simp add: objs_mutate len3)
  have objs4: "objs ?w4 = (objs ?w3)[Suc ?n := obj2]"
    by (rule objs_mutate)
  have stored4: "getp (objs ?w4) (JRef ?n) name = getp (objs ?w2) (JRef ?n) name" for name
    unfolding objs4 objs3 by (rule getp_append_update) (simp_all add: len2)
  have fst2: "fst (fromCache P t2 h ?w4) = JRef (Suc (Suc ?n))"
    by (simp add: fromCache_hit_fields(1) [OF hit2] len4)
  have fields2: "getp (objs ?w5) (JRef (Suc (Suc ?n))) name = getp (objs w) (JRef r) name"
    if "name \<in> set properties" for name
  proof -
    have "getp (objs ?w5) (JRef (length (objs ?w4))) name = getp (objs ?w4) (data ?e) name"
      by (rule fromCache_fields [OF hit2 that])
    then show ?thesis
      using that by (simp add: len4 stored4 stored2 del: getp.simps)
  qed
  show ?thesis
    using entry stored2 fst1 fields1 fst2 fields2 by blast
qed

theorem snapshot_isolated_witness:
  "getp (objs (snd (fromCache sampleHost 1020 ''k''
      (mutate 3 [''statusCode'' \<mapsto> JNum 503]
         (snd (fromCache sampleHost 1010 ''k''
            (mutate 0 [''statusCode'' \<mapsto> JNum 500]
               (addToCache 1000 1000 ''k'' 60 (JRef 0) sampleWorld))))))))
     (JRef 4) ''statusCode'' = JNum 200"
proof -
  have len: "length (objs sampleWorld) = 2"
    by (simp add: sampleWorld_def)
  have r: "0 < length (objs sampleWorld)"
    by (simp add: len)
  have name: "''statusCode'' \<in> set properties"
    by (simp add: properties_def)
  have orig: "getp (objs sampleWorld) (JRef 0) ''statusCode'' = JNum 200"
    by (simp add: sampleWorld_def oget_def)
  have t1: "(1010::int) \<le> 1000 + 60" and t2: "(1020::int) \<le> 1000 + 60"
    by simp_all
  note th = snapshot_isolated [OF r t1 t2, of 1000 "''k''" "[''statusCode'' \<mapsto> JNum 500]"
      sampleHost "[''statusCode'' \<mapsto> JNum 503]"]
  from th have "\<forall>name \<in> set properties.
        getp (objs (snd (fromCache sampleHost 1020 ''k''
            (mutate (Suc (length (objs sampleWorld))) [''statusCode'' \<mapsto> JNum 503]
               (snd (fromCache sampleHost 1010 ''k''
                  (mutate 0 [''statusCode'' \<mapsto> JNum 500]
                     (addToCache 1000 1000 ''k'' 60 (JRef 0) sampleWorld))))))))
          (JRef (Suc (Suc (length (objs sampleWorld))))) name
        = getp (objs sampleWorld) (JRef 0) name"
    by blast
  from bspec [OF this name] show ?thesis
    unfolding len orig by simp
qed

text \<open>
  The copy is one level deep. A property whose value is a reference is copied as that
  reference: the snapshot and the response share the object it refers to, and an
  assignment inside that object shows through every later lookup.
\<close>

lemma nested_object_shared:
  "getp (objs (snd (fromCache sampleHost 1010 ''k''
                  (mutate 1 [''id'' \<mapsto> JNum 2]
                     (addToCache 1000 1000 ''k'' 60 (JRef 0) sampleWorld)))))
     (JRef 3) ''body'' = JRef 1 \<and>
   getp (objs (snd (fromCache sampleHost 1010 ''k''
                  (mutate 1 [''id'' \<mapsto> JNum 2]
                     (addToCache 1000 1000 ''k'' 60 (JRef 0) sampleWorld)))))
     (JRef 1) ''id'' = JNum 2"
proof -
  let ?w1 = "addToCache 1000 1000 ''k'' 60 (JRef 0) sampleWorld"
  let ?w2 = "mutate 1 [''id'' \<mapsto> JNum 2] ?w1"
  have len: "length (objs sampleWorld) = 2"
    by (simp add: sampleWorld_def)
  have hit: "cache (purgeCache 1010 ?w2) ''k'' = Some \<lparr>data = JRef 2, time = 1060\<rparr>"
    by (simp add: cache_purge_mutate cache_purgeCache cache_addToCache len)
  have objs2: "objs ?w2 = (objs ?w1)[1 := [''id'' \<mapsto> JNum 2]]"
    by (rule objs_mutate)
  show ?thesis
    unfolding fromCache_hit_fields(2) [OF hit] objs2 objs_addToCache
    by (simp add: sampleWorld_def properties_def oget_def)
qed

section \<open>Properties of the option normalizer\<close>

lemma hget_hset:
  "hget P (hset P hs n v) n' = (if normalize P n = normalize P n' then v else hget P hs n')"
  by (simp add: hget_def hset_def update_conv')

text \<open>
  C3, as the claim states it: a request with a structured body and no \<open>headers\<close> property
  gets a JSON \<open>Content-Type\<close> and \<open>Accept\<close>. It does not: \<open>checkHeaders\<close> does nothing
  when the options have no \<open>headers\<close> property, and the options leave it as they came,
  with no header at all.
\<close>

theorem checkHeaders_absent_counterexample:
  "checkHeaders sampleHost [''body'' \<mapsto> JObj [(''a'', JNum 1)]]
     = Inr [''body'' \<mapsto> JObj [(''a'', JNum 1)]] \<and>
   [''body'' \<mapsto> JObj [(''a'', JNum 1)]] ''headers'' = None \<and>
   header sampleHost [''body'' \<mapsto> JObj [(''a'', JNum 1)]] ''Content-Type'' = JUndefined \<and>
   header sampleHost [''body'' \<mapsto> JObj [(''a'', JNum 1)]] ''Accept'' = JUndefined"
  by (simp add: checkHeaders_def header_def oget_def)

text \<open>
  C3, amended. For every request whose \<open>headers\<close> property is present and holds no
  \<open>Content-Type\<close> and no \<open>Accept\<close> (an empty \<open>headers\<close> object, for one), and whose body
  is a structured object, the normalization produces headers with
  \<open>Content-Type: application/json; charset=utf-8\<close> and \<open>Accept: application/json\<close>. The
  header table is any that keeps the two names apart.
\<close>

theorem checkHeaders_json:
  assumes "options ''headers'' = Some H"
    and "options ''body'' = Some body" and "typeof body = ''object''"
    and "\<not> truthy (hget P (jfHttpHeaders P H) ''Content-Type'')"
    and "\<not> truthy (hget P (jfHttpHeaders P H) ''Accept'')"
    and "normalize P ''Accept'' \<noteq> normalize P ''Content-Type''"
  shows "\<exists>options'. checkHeaders P options = Inr options' \<and>
           header P options' ''Content-Type'' = JStr ''application/json; charset=utf-8'' \<and>
           header P options' ''Accept'' = JStr ''application/json''"
proof -
  let ?hs0 = "jfHttpHeaders P H"
  let ?hs1 = "hset P ?hs0 ''Content-Type'' (JStr ''application/json; charset=utf-8'')"
  let ?hs2 = "hset P ?hs1 ''Accept'' (JStr ''application/json'')"
  have ct: "inferContentType P options ?hs0 = ?hs1"
    using assms(2-4) by (simp add: inferContentType_def oget_def)
  have acc: "inferAccept P ?hs1 = Inr ?hs2"
    using assms(5,6) by (simp add: inferAccept_def hget_hset Let_def)
  have "checkHeaders P options = Inr (options(''headers'' \<mapsto> JObj ?hs2))"
    using assms(1) by (simp add: checkHeaders_def oget_def ct acc)
  moreover have "header P (options(''headers'' \<mapsto> JObj ?hs2)) ''Content-Type'' =
      JStr ''application/json; charset=utf-8''"
    using assms(6) by (simp add: header_def oget_def hget_hset)
  moreover have "header P (options(''headers'' \<mapsto> JObj ?hs2)) ''Accept'' =
      JStr ''application/json''"
    by (simp add: header_def oget_def hget_hset)
  ultimately show ?thesis by blast
qed

theorem checkHeaders_json_witness:
  "\<exists>options'.
     checkHeaders sampleHost [''headers'' \<mapsto> JObj [], ''body'' \<mapsto> JObj [(''a'', JNum 1)]]
       = Inr options' \<and>
     header sampleHost options' ''Content-Type'' = JStr ''application/json; charset=utf-8'' \<and>
     header sampleHost options' ''Accept'' = JStr ''application/json''"
proof (rule checkHeaders_json)
  show "[''headers'' \<mapsto> JObj [], ''body'' \<mapsto> JObj [(''a'', JNum 1)]] ''headers'' = Some (JObj [])"
    by simp
  show "[''headers'' \<mapsto> JObj [], ''body'' \<mapsto> JObj [(''a'', JNum 1)]] ''body''
          = Some (JObj [(''a'', JNum 1)])"
    by simp
  show "typeof (JObj [(''a'', JNum 1)]) = ''object''"
    by simp
  show "\<not> truthy (hget sampleHost (jfHttpHeaders sampleHost (JObj [])) ''Content-Type'')"
    by (simp add: jfHttpHeaders_def hget_def)
  show "\<not> truthy (hget sampleHost (jfHttpHeaders sampleHost (JObj [])) ''Accept'')"
    by (simp add: jfHttpHeaders_def hget_def)
  show "normalize sampleHost ''Accept'' \<noteq> normalize sampleHost ''Content-Type''"
    by (simp add: sampleHost_def sampleNormalize_def)
qed

lemma aliasHost_other:
  "k \<noteq> ''host'' \<Longrightarrow> k \<noteq> ''hostname'' \<Longrightarrow> aliasHost options k = options k"
  by (simp add: aliasHost_def)

lemma mergeUrl_url: "oget options ''url'' = JStr u \<Longrightarrow> mergeUrl P options ''url'' = None"
  by (simp add: mergeUrl_def Let_def split: prod.splits)

lemma mergeUrl_pathname:
  "oget options ''url'' = JStr u \<Longrightarrow> truthy (oget options ''pathname'') \<Longrightarrow>
   mergeUrl P options ''path'' = Some (oget options ''pathname'')"
  by (simp add: mergeUrl_def Let_def)

lemma mergeUrl_query:
  "oget options ''url'' = JStr u \<Longrightarrow> \<not> truthy (oget options ''pathname'') \<Longrightarrow>
   truthy (oget (urlParse P u) ''query'') \<Longrightarrow>
   mergeUrl P options ''path'' =
     Some (JStr (toString P (oget (urlParse P u) ''path'') @ ''?'' @
                 toString P (oget (urlParse P u) ''query'')))"
  by (simp add: mergeUrl_def Let_def)

text \<open>
  C4, as the claim states it: whenever a \<open>pathname\<close> is supplied, the resulting path is
  that value exactly. It is not when the value supplied is falsy: with the empty string
  for \<open>pathname\<close> the test \<open>if (options.pathname)\<close> fails and the path is the one of the URL.
\<close>

theorem checkUrl_empty_pathname_counterexample:
  "[''url'' \<mapsto> JStr ''http://jsonplaceholder.typicode.com/posts/1'', ''pathname'' \<mapsto> JStr []]
     ''pathname'' = Some (JStr []) \<and>
   oget (snd (checkUrl sampleHost
     [''url'' \<mapsto> JStr ''http://jsonplaceholder.typicode.com/posts/1'',
      ''pathname'' \<mapsto> JStr []])) ''path'' = JStr ''/posts/1''"
  by (simp add: checkUrl_def aliasHost_def mergeUrl_def oget_def sampleHost_def sampleUrl_def
        Let_def)

text \<open>
  What the second branch does: with no truthy \<open>pathname\<close> and a truthy query, \<open>?\<close> and the
  query are appended to the \<open>path\<close> property of the parsed URL. On Node that property
  is the path of the URL with its query, so the query comes twice in the result.
\<close>

lemma checkUrl_query:
  assumes "oget options ''url'' = JStr u" and "\<not> truthy (oget options ''pathname'')"
    and "truthy (oget (urlParse P u) ''query'')"
  shows "oget (snd (checkUrl P options)) ''path'' =
           JStr (toString P (oget (urlParse P u) ''path'') @ ''?'' @
                 toString P (oget (urlParse P u) ''query''))"
  using mergeUrl_query [OF assms]
  by (simp add: checkUrl_def Let_def oget_def aliasHost_other)

lemma query_appended_twice:
  "oget (snd (checkUrl sampleHost
      [''url'' \<mapsto> JStr ''http://jsonplaceholder.typicode.com/posts?userId=1'']))
      ''path'' = JStr ''/posts?userId=1?userId=1''"
  by (simp add: checkUrl_def aliasHost_def mergeUrl_def oget_def sampleHost_def sampleUrl_def
        Let_def)

text \<open>
  C4, amended. For every options record whose \<open>url\<close> is a string: if a truthy \<open>pathname\<close>
  (a non-empty string) is supplied, the resulting path is that value exactly; and, with
  or without a \<open>pathname\<close>, the options have no \<open>url\<close> property afterwards. The path given
  to a URL with a query and no \<open>pathname\<close> is left out of the statement.
\<close>

theorem checkUrl_path:
  assumes "oget options ''url'' = JStr u"
  shows "(truthy (oget options ''pathname'') \<longrightarrow>
            oget (snd (checkUrl P options)) ''path'' = oget options ''pathname'') \<and>
         snd (checkUrl P options) ''url'' = None"
proof -
  have path: "oget (snd (checkUrl P options)) ''path'' = oget (mergeUrl P options) ''path''"
    by (simp add: checkUrl_def Let_def oget_def aliasHost_other)
  have url: "snd (checkUrl P options) ''url'' = None"
    using assms by (simp add: checkUrl_def Let_def aliasHost_other mergeUrl_url)
  have a: "oget (mergeUrl P options) ''path'' = oget options ''pathname''"
    if "truthy (oget options ''pathname'')"
    using mergeUrl_pathname [OF assms that] by (simp add: oget_def)
  show ?thesis
    using a url by (simp add: path)
qed

theorem checkUrl_path_witness:
  "oget (snd (checkUrl sampleHost
      [''url'' \<mapsto> JStr ''http://jsonplaceholder.typicode.com/posts?userId=1'',
       ''pathname'' \<mapsto> JStr ''/users''])) ''path'' = JStr ''/users'' \<and>
   snd (checkUrl sampleHost
      [''url'' \<mapsto> JStr ''http://jsonplaceholder.typicode.com/posts?userId=1'',
       ''pathname'' \<mapsto> JStr ''/users'']) ''url'' = None"
  using checkUrl_path [of
      "[''url'' \<mapsto> JStr ''http://jsonplaceholder.typicode.com/posts?userId=1'',
        ''pathname'' \<mapsto> JStr ''/users'']"
      "''http://jsonplaceholder.typicode.com/posts?userId=1''" sampleHost]
  by (simp add: oget_def)

section \<open>Properties of the request executor\<close>

text \<open>The regular expression, read as a statement about the string.\<close>

lemma jsonRe_iff:
  "jsonRe s \<longleftrightarrow>
     (\<exists>pre c rest. s = pre @ c # ''json'' @ rest \<and> (c = CHR ''+'' \<or> c = CHR ''/'') \<and>
        (rest = [] \<or> hd rest = CHR '';''))"
proof (induction s)
  case Nil
  then show ?case by simp
next
  case (Cons a s)
  have here: "(take 4 s = ''json'' \<and> (case drop 4 s of [] \<Rightarrow> True | d # ds \<Rightarrow> d = CHR '';''))
      \<longleftrightarrow> (\<exists>rest. s = ''json'' @ rest \<and> (rest = [] \<or> hd rest = CHR '';''))"
  proof
    assume l: "take 4 s = ''json'' \<and> (case drop 4 s of [] \<Rightarrow> True | d # ds \<Rightarrow> d = CHR '';'')"
    have "s = take 4 s @ drop 4 s" by simp
    with l have "s = ''json'' @ drop 4 s" by simp
    moreover from l have "drop 4 s = [] \<or> hd (drop 4 s) = CHR '';''"
      by (cases "drop 4 s") auto
    ultimately show "\<exists>rest. s = ''json'' @ rest \<and> (rest = [] \<or> hd rest = CHR '';'')"
      by blast
  next
    assume "\<exists>rest. s = ''json'' @ rest \<and> (rest = [] \<or> hd rest = CHR '';'')"
    then obtain rest where "s = ''json'' @ rest" and "rest = [] \<or> hd rest = CHR '';''"
      by blast
    then show "take 4 s = ''json'' \<and> (case drop 4 s of [] \<Rightarrow> True | d # ds \<Rightarrow> d = CHR '';'')"
      by (cases rest) auto
  qed
  have step: "jsonRe (a # s) \<longleftrightarrow>
      ((a = CHR ''+'' \<or> a = CHR ''/'') \<and>
       (\<exists>rest. s = ''json'' @ rest \<and> (rest = [] \<or> hd rest = CHR '';''))) \<or> jsonRe s"
    unfolding here [symmetric] by simp
  show ?case
  proof
    assume "jsonRe (a # s)"
    then consider
      (here) "(a = CHR ''+'' \<or> a = CHR ''/'')" "\<exists>rest. s = ''json'' @ rest \<and> (rest = [] \<or> hd rest = CHR '';'')"
      | (later) "jsonRe s"
      using step by blast
    then show "\<exists>pre c rest. a # s = pre @ c # ''json'' @ rest \<and> (c = CHR ''+'' \<or> c = CHR ''/'') \<and>
        (rest = [] \<or> hd rest = CHR '';'')"
    proof cases
      case here
      then obtain rest where "s = ''json'' @ rest" "rest = [] \<or> hd rest = CHR '';''" by blast
      with here(1) have "a # s = [] @ a # ''json'' @ rest \<and> (a = CHR ''+'' \<or> a = CHR ''/'') \<and>
        (rest = [] \<or> hd rest = CHR '';'')" by simp
      then show ?thesis by blast
    next
      case later
      with Cons.IH obtain pre c rest where "s = pre @ c # ''json'' @ rest"
        "c = CHR ''+'' \<or> c = CHR ''/''" "rest = [] \<or> hd rest = CHR '';''" by blast
      then have "a # s = (a # pre) @ c # ''json'' @ rest \<and> (c = CHR ''+'' \<or> c = CHR ''/'') \<and>
        (rest = [] \<or> hd rest = CHR '';'')" by simp
      then show ?thesis by blast
    qed
  next
    assume "\<exists>pre c rest. a # s = pre @ c # ''json'' @ rest \<and> (c = CHR ''+'' \<or> c = CHR ''/'') \<and>
        (rest = [] \<or> hd rest = CHR '';'')"
    then obtain pre c rest where eq: "a # s = pre @ c # ''json'' @ rest"
      and c: "c = CHR ''+'' \<or> c = CHR ''/''" and r: "rest = [] \<or> hd rest = CHR '';''" by blast
    show "jsonRe (a # s)"
    proof (cases pre)
      case Nil
      with eq have "a = c" "s = ''json'' @ rest" by simp_all
      with c r step show ?thesis by blast
    next
      case (Cons b pre')
      with eq have "s = pre' @ c # ''json'' @ rest" by simp
      with c r Cons.IH have "jsonRe s" by blast
      then show ?thesis using step by blast
    qed
  qed
qed

lemma onEnd_result:
  assumes "r < length (objs w)"
  shows "fst (onEnd P T hash d r chunks w) = Success (JRef r)"
    and "getp (objs (snd (onEnd P T hash d r chunks w))) (JRef r) ''body'' =
           decodeBody P (getp (objs w) (JRef r) ''headers'') chunks"
  using assms
  by (auto simp: onEnd_def Let_def objs_addToCache nth_append oget_def split: option.splits)

lemma doRequest_hit:
  assumes dur: "(if options ''cacheTime'' \<noteq> None then oget options ''cacheTime'' else cacheTime w) = d"
    and "truthy d"
    and hit: "cache (purgeCache (t_lookup T) w) (sha256 P (stringify P options)) = Some e"
  shows "doRequest P T w options =
     (Success (JRef (length (objs w))), [],
      snd (fromCache P (t_lookup T) (sha256 P (stringify P options)) w))"
  unfolding doRequest_def buildHash_def Let_def dur fromCache_hit [OF hit]
  using assms(2) by simp

lemma doRequest_network:
  assumes dur: "(if options ''cacheTime'' \<noteq> None then oget options ''cacheTime'' else cacheTime w) = d"
    and miss: "\<not> truthy d \<or> cache (purgeCache (t_lookup T) w) (sha256 P (stringify P options)) = None"
  shows "\<exists>w1 hash. objs w1 = objs w \<and>
     doRequest P T w options =
       (case transport P (oget options ''protocol'' = JStr ''https:'') options of
          NetError err \<Rightarrow> (Failure err, traffic options, w1)
        | NetResponse msg chunks \<Rightarrow>
            (fst (onEnd P T hash d (length (objs w)) chunks (w1\<lparr>objs := objs w @ [msg]\<rparr>)),
             traffic options,
             snd (onEnd P T hash d (length (objs w)) chunks (w1\<lparr>objs := objs w @ [msg]\<rparr>))))"
proof (cases "truthy d")
  case False
  have "objs w = objs w \<and>
     doRequest P T w options =
       (case transport P (oget options ''protocol'' = JStr ''https:'') options of
          NetError err \<Rightarrow> (Failure err, traffic options, w)
        | NetResponse msg chunks \<Rightarrow>
            (fst (onEnd P T JUndefined d (length (objs w)) chunks (w\<lparr>objs := objs w @ [msg]\<rparr>)),
             traffic options,
             snd (onEnd P T JUndefined d (length (objs w)) chunks (w\<lparr>objs := objs w @ [msg]\<rparr>))))"
    unfolding doRequest_def Let_def dur traffic_def alloc_def
    using False by (simp split: netreply.splits prod.splits)
  then show ?thesis by blast
next
  case True
  with miss have none: "cache (purgeCache (t_lookup T) w) (sha256 P (stringify P options)) = None"
    by blast
  let ?w1 = "purgeCache (t_lookup T) w"
  let ?h = "JStr (sha256 P (stringify P options))"
  have "objs ?w1 = objs w \<and>
     doRequest P T w options =
       (case transport P (oget options ''protocol'' = JStr ''https:'') options of
          NetError err \<Rightarrow> (Failure err, traffic options, ?w1)
        | NetResponse msg chunks \<Rightarrow>
            (fst (onEnd P T ?h d (length (objs w)) chunks (?w1\<lparr>objs := objs w @ [msg]\<rparr>)),
             traffic options,
             snd (onEnd P T ?h d (length (objs w)) chunks (?w1\<lparr>objs := objs w @ [msg]\<rparr>))))"
    unfolding doRequest_def buildHash_def Let_def dur traffic_def alloc_def fromCache_miss [OF none]
    using True by (simp add: objs_purgeCache split: netreply.splits prod.splits)
  then show ?thesis by blast
qed

lemma doRequest_goes_out:
  assumes "(if options ''cacheTime'' \<noteq> None then oget options ''cacheTime'' else cacheTime w) = d"
    and "\<not> truthy d \<or> cache (purgeCache (t_lookup T) w) (sha256 P (stringify P options)) = None"
  shows "fst (snd (doRequest P T w options)) = traffic options"
  using doRequest_network [OF assms]
  by (cases "transport P (oget options ''protocol'' = JStr ''https:'') options") auto

text \<open>
  After a miss, the response of the network is stored under the same key, to expire
  \<open>n\<close> milliseconds after the instant of the insertion.
\<close>

lemma doRequest_inserts:
  assumes dur: "(if options ''cacheTime'' \<noteq> None then oget options ''cacheTime'' else cacheTime w) = d"
    and "truthy d" and num: "toNumber d = Some n"
    and miss: "cache (purgeCache (t_lookup T) w) (sha256 P (stringify P options)) = None"
    and key: "sha256 P (stringify P options) \<noteq> []"
    and reply: "transport P (oget options ''protocol'' = JStr ''https:'') options = NetResponse msg chunks"
  shows "cache (snd (snd (doRequest P T w options))) (sha256 P (stringify P options)) =
           Some \<lparr>data = JRef (Suc (length (objs w))), time = t_stamp T + n\<rparr>"
  unfolding doRequest_def buildHash_def Let_def dur fromCache_miss [OF miss] alloc_def
  using assms(2) key
  by (simp add: reply onEnd_def Let_def num cache_addToCache objs_purgeCache)

lemma traffic_nonempty: "traffic options \<noteq> []"
  by (simp add: traffic_def)

lemmas sample_defs = sampleHost_def sampleUrl_def sampleNormalize_def sampleParse_def
  sampleTransport_def sampleClock_def emptyWorld_def sampleOptions_def

lemma sample_key: "sha256 sampleHost (stringify sampleHost sampleOptions) = ''sha256:/posts/1''"
  by (simp add: sampleHost_def sampleOptions_def oget_def)

lemma cachedWorld_facts:
  "length (objs cachedWorld) = 2"
  "getp (objs cachedWorld) (JRef (Suc 0)) ''statusCode'' = JNum 200"
  "getp (objs cachedWorld) (JRef (Suc 0)) ''body'' = JArr [JNum 1, JNum 2]"
  "cache cachedWorld ''sha256:/posts/1'' = Some \<lparr>data = JRef 1, time = 60010\<rparr>"
  unfolding cachedWorld_def
  by (simp_all add: doRequest_def sample_defs oget_def Let_def buildHash_def fromCache_def purgeCache_def
        alloc_def onEnd_def decodeBody_def jfHttpHeaders_def hget_def hset_def objs_addToCache
        cache_addToCache properties_def)

text \<open>
  C6. For every request: the effective duration \<open>d\<close> is \<open>options.cacheTime\<close> when the
  options have that property, and the default of the module otherwise. When it is truthy
  (a number other than zero), the key looked up is the SHA-256 digest of the JSON
  serialization of the options, and a hit fires the success continuation with a snapshot
  built from the cached copy, with no network request. On a miss, and whenever the
  duration is falsy, the request goes to the network.
\<close>

theorem cache_hit_short_circuit:
  assumes "options ''cacheTime'' = Some d \<or> (options ''cacheTime'' = None \<and> cacheTime w = d)"
  shows
    "(truthy d \<and> cache (purgeCache (t_lookup T) w) (sha256 P (stringify P options)) = Some e \<longrightarrow>
        fst (doRequest P T w options) = Success (JRef (length (objs w))) \<and>
        fst (snd (doRequest P T w options)) = [] \<and>
        (\<forall>name \<in> set properties.
           getp (objs (snd (snd (doRequest P T w options)))) (JRef (length (objs w))) name
             = getp (objs w) (data e) name)) \<and>
     (truthy d \<and> cache (purgeCache (t_lookup T) w) (sha256 P (stringify P options)) = None \<longrightarrow>
        fst (snd (doRequest P T w options)) = traffic options) \<and>
     (\<not> truthy d \<longrightarrow> fst (snd (doRequest P T w options)) = traffic options)"
proof -
  from assms
  have dur: "(if options ''cacheTime'' \<noteq> None then oget options ''cacheTime'' else cacheTime w) = d"
    by (auto simp: oget_def)
  have hit: "fst (doRequest P T w options) = Success (JRef (length (objs w))) \<and>
        fst (snd (doRequest P T w options)) = [] \<and>
        (\<forall>name \<in> set properties.
           getp (objs (snd (snd (doRequest P T w options)))) (JRef (length (objs w))) name
             = getp (objs w) (data e) name)"
    if "truthy d" and e: "cache (purgeCache (t_lookup T) w) (sha256 P (stringify P options)) = Some e"
    unfolding doRequest_hit [OF dur that]
    using fromCache_fields [OF e, where P = P] by simp
  have net: "fst (snd (doRequest P T w options)) = traffic options"
    if "\<not> truthy d \<or> cache (purgeCache (t_lookup T) w) (sha256 P (stringify P options)) = None"
    using doRequest_goes_out [OF dur that] .
  show ?thesis
    using hit net by blast
qed

theorem cache_hit_short_circuit_witness:
  "fst (doRequest sampleHost sampleClock cachedWorld sampleOptions) = Success (JRef 2) \<and>
   fst (snd (doRequest sampleHost sampleClock cachedWorld sampleOptions)) = [] \<and>
   getp (objs (snd (snd (doRequest sampleHost sampleClock cachedWorld sampleOptions))))
     (JRef 2) ''body'' = JArr [JNum 1, JNum 2] \<and>
   fst (snd (doRequest sampleHost sampleClock emptyWorld sampleOptions)) = traffic sampleOptions"
proof -
  let ?e = "\<lparr>data = JRef 1, time = 60010\<rparr>"
  have ttl: "sampleOptions ''cacheTime'' = Some (JNum 60000) \<or>
      (sampleOptions ''cacheTime'' = None \<and> cacheTime cachedWorld = JNum 60000)"
    by (simp add: sampleOptions_def)
  have ttl': "sampleOptions ''cacheTime'' = Some (JNum 60000) \<or>
      (sampleOptions ''cacheTime'' = None \<and> cacheTime emptyWorld = JNum 60000)"
    by (simp add: sampleOptions_def)
  have hit: "truthy (JNum 60000) \<and>
      cache (purgeCache (t_lookup sampleClock) cachedWorld)
        (sha256 sampleHost (stringify sampleHost sampleOptions)) = Some ?e"
    by (simp add: sample_key cache_purgeCache cachedWorld_facts sampleClock_def)
  have miss: "truthy (JNum 60000) \<and>
      cache (purgeCache (t_lookup sampleClock) emptyWorld)
        (sha256 sampleHost (stringify sampleHost sampleOptions)) = None"
    by (simp add: cache_purgeCache emptyWorld_def)
  have name: "''body'' \<in> set properties"
    by (simp add: properties_def)
  note th = cache_hit_short_circuit [where options = sampleOptions and d = "JNum 60000"
      and w = cachedWorld and T = sampleClock and P = sampleHost and e = ?e, OF ttl]
  note th' = cache_hit_short_circuit [where options = sampleOptions and d = "JNum 60000"
      and w = emptyWorld and T = sampleClock and P = sampleHost and e = ?e, OF ttl']
  from th hit have a: "fst (doRequest sampleHost sampleClock cachedWorld sampleOptions)
        = Success (JRef (length (objs cachedWorld)))"
    and b: "fst (snd (doRequest sampleHost sampleClock cachedWorld sampleOptions)) = []"
    and c: "\<forall>name \<in> set properties.
           getp (objs (snd (snd (doRequest sampleHost sampleClock cachedWorld sampleOptions))))
             (JRef (length (objs cachedWorld))) name
             = getp (objs cachedWorld) (data ?e) name"
    by blast+
  from th' miss
  have d: "fst (snd (doRequest sampleHost sampleClock emptyWorld sampleOptions)) = traffic sampleOptions"
    by blast
  from bspec [OF c name] a b d show ?thesis
    by (simp add: cachedWorld_facts del: getp.simps)
qed

text \<open>
  C7. For every response whose \<open>Content-Type\<close> matches \<open>[+/]json(;|$)\<close>, on a request
  that went to the network: the body read is parsed as JSON and the result is the \<open>body\<close>
  property of the response; when the parse fails the \<open>body\<close> is the empty object; in both
  cases the success continuation is fired with the response, never the error one.
\<close>

theorem json_body_decoded:
  assumes "fst (snd (doRequest P T w options)) \<noteq> []"
    and "transport P (oget options ''protocol'' = JStr ''https:'') options = NetResponse msg chunks"
    and "jsonRe (toString P (hget P (jfHttpHeaders P (oget msg ''headers'')) ''Content-Type''))"
  shows "fst (doRequest P T w options) = Success (JRef (length (objs w))) \<and>
         getp (objs (snd (snd (doRequest P T w options)))) (JRef (length (objs w))) ''body'' =
           (case jsonParse P (concat chunks) of Some v \<Rightarrow> v | None \<Rightarrow> JObj [])"
proof -
  define d where "d = (if options ''cacheTime'' \<noteq> None then oget options ''cacheTime'' else cacheTime w)"
  then have dur: "(if options ''cacheTime'' \<noteq> None then oget options ''cacheTime'' else cacheTime w) = d"
    by simp
  have miss: "\<not> truthy d \<or> cache (purgeCache (t_lookup T) w) (sha256 P (stringify P options)) = None"
  proof (rule ccontr)
    assume "\<not> ?thesis"
    then obtain e where "truthy d"
      and "cache (purgeCache (t_lookup T) w) (sha256 P (stringify P options)) = Some e"
      by auto
    from doRequest_hit [OF dur this] assms(1) show False by simp
  qed
  from doRequest_network [OF dur miss] obtain w1 hash where w1: "objs w1 = objs w"
    and run: "doRequest P T w options =
        (fst (onEnd P T hash d (length (objs w)) chunks (w1\<lparr>objs := objs w @ [msg]\<rparr>)),
         traffic options,
         snd (onEnd P T hash d (length (objs w)) chunks (w1\<lparr>objs := objs w @ [msg]\<rparr>)))"
    by (auto simp: assms(2))
  have r: "length (objs w) < length (objs (w1\<lparr>objs := objs w @ [msg]\<rparr>))"
    by simp
  have headers: "getp (objs (w1\<lparr>objs := objs w @ [msg]\<rparr>)) (JRef (length (objs w))) ''headers'' =
      oget msg ''headers''"
    by simp
  have "decodeBody P (oget msg ''headers'') chunks =
      (case jsonParse P (concat chunks) of Some v \<Rightarrow> v | None \<Rightarrow> JObj [])"
    using assms(3) by (simp add: decodeBody_def Let_def)
  then show ?thesis
    unfolding run using onEnd_result [OF r, where P = P and T = T and hash = hash and d = d and chunks = chunks]
    by (simp only: headers fst_conv snd_conv)
qed

theorem json_body_decoded_witness:
  "fst (doRequest sampleHost sampleClock emptyWorld sampleGet) = Success (JRef 0) \<and>
   getp (objs (snd (snd (doRequest sampleHost sampleClock emptyWorld sampleGet))))
     (JRef 0) ''body'' = JArr [JNum 1, JNum 2] \<and>
   fst (doRequest sampleHost sampleClock emptyWorld sampleMissing) = Success (JRef 0) \<and>
   getp (objs (snd (snd (doRequest sampleHost sampleClock emptyWorld sampleMissing))))
     (JRef 0) ''body'' = JObj []"
proof -
  let ?ok = "[''statusCode'' \<mapsto> JNum 200, ''statusMessage'' \<mapsto> JStr ''OK'',
              ''headers'' \<mapsto> JObj [(''content-type'', JStr ''application/json; charset=utf-8'')],
              ''complete'' \<mapsto> JBool True]"
  let ?nf = "[''statusCode'' \<mapsto> JNum 404, ''statusMessage'' \<mapsto> JStr ''Not Found'',
              ''headers'' \<mapsto> JObj [(''content-type'', JStr ''application/json'')],
              ''complete'' \<mapsto> JBool True]"
  have len: "length (objs emptyWorld) = 0"
    by (simp add: emptyWorld_def)
  have out1: "fst (snd (doRequest sampleHost sampleClock emptyWorld sampleGet)) \<noteq> []"
    by (subst doRequest_goes_out [where d = "JNum 0"])
       (simp_all add: sampleGet_def emptyWorld_def traffic_nonempty)
  have out2: "fst (snd (doRequest sampleHost sampleClock emptyWorld sampleMissing)) \<noteq> []"
    by (subst doRequest_goes_out [where d = "JNum 0"])
       (simp_all add: sampleMissing_def emptyWorld_def traffic_nonempty)
  have reply1: "transport sampleHost (oget sampleGet ''protocol'' = JStr ''https:'') sampleGet
      = NetResponse ?ok [''[1,'', ''2]'']"
    by (simp add: sampleHost_def sampleTransport_def sampleGet_def oget_def)
  have reply2: "transport sampleHost (oget sampleMissing ''protocol'' = JStr ''https:'') sampleMissing
      = NetResponse ?nf [''not json'']"
    by (simp add: sampleHost_def sampleTransport_def sampleMissing_def oget_def)
  have re1: "jsonRe (toString sampleHost
      (hget sampleHost (jfHttpHeaders sampleHost (oget ?ok ''headers'')) ''Content-Type''))"
    by (simp add: oget_def jfHttpHeaders_def hget_def hset_def sampleHost_def sampleNormalize_def)
  have re2: "jsonRe (toString sampleHost
      (hget sampleHost (jfHttpHeaders sampleHost (oget ?nf ''headers'')) ''Content-Type''))"
    by (simp add: oget_def jfHttpHeaders_def hget_def hset_def sampleHost_def sampleNormalize_def)
  have p1: "jsonParse sampleHost (concat [''[1,'', ''2]'']) = Some (JArr [JNum 1, JNum 2])"
    by (simp add: sampleHost_def sampleParse_def)
  have p2: "jsonParse sampleHost (concat [''not json'']) = None"
    by (simp add: sampleHost_def sampleParse_def)
  from json_body_decoded [OF out1 reply1 re1] json_body_decoded [OF out2 reply2 re2]
  show ?thesis
    unfolding p1 p2 len by simp
qed

section \<open>Properties of the entry point\<close>

text \<open>
  C8. For every call of the entry point with no options at all (any falsy argument), or
  with options in which no hostname is left after the URL is parsed and \<open>host\<close> is
  aliased, the entry point throws a \<open>TypeError\<close> at once: nothing was sent to the network,
  nothing was delivered through a callback, an event or a promise, and the state of the
  module is as it was.
\<close>

theorem wrong_options_throw:
  "(\<not> truthy options \<longrightarrow>
      jfHttpRequest P T w options =
        \<lparr>thrown = Some (TypeError ''Wrong options''), returned = RetUndefined,
         delivered = [], requests = [], final = w\<rparr>) \<and>
   (truthy options \<and>
    \<not> truthy (oget (aliasHost (mergeUrl P (optionsOf (objs w) options))) ''hostname'') \<longrightarrow>
      jfHttpRequest P T w options =
        \<lparr>thrown = Some (TypeError ''Wrong hostname''), returned = RetUndefined,
         delivered = [], requests = [], final = w\<rparr>)"
  by (simp add: jfHttpRequest_def checkUrl_def throws_def Let_def)

theorem wrong_options_throw_witness:
  "jfHttpRequest sampleHost sampleClock emptyWorld JUndefined =
     \<lparr>thrown = Some (TypeError ''Wrong options''), returned = RetUndefined,
      delivered = [], requests = [], final = emptyWorld\<rparr> \<and>
   jfHttpRequest sampleHost sampleClock emptyWorld (JStr ''/posts/1'') =
     \<lparr>thrown = Some (TypeError ''Wrong hostname''), returned = RetUndefined,
      delivered = [], requests = [], final = emptyWorld\<rparr> \<and>
   jfHttpRequest sampleHost sampleClock emptyWorld
       (JObj [(''path'', JStr ''/posts/1''), (''requestType'', JStr ''promise'')]) =
     \<lparr>thrown = Some (TypeError ''Wrong hostname''), returned = RetUndefined,
      delivered = [], requests = [], final = emptyWorld\<rparr>"
proof -
  have a: "\<not> truthy (oget (aliasHost (mergeUrl sampleHost
      (optionsOf (objs emptyWorld) (JStr ''/posts/1'')))) ''hostname'')"
    by (simp add: aliasHost_def mergeUrl_def optionsOf_def oget_def sampleHost_def sampleUrl_def
          Let_def)
  have b: "\<not> truthy (oget (aliasHost (mergeUrl sampleHost
      (optionsOf (objs emptyWorld)
         (JObj [(''path'', JStr ''/posts/1''), (''requestType'', JStr ''promise'')]))))
      ''hostname'')"
    by (simp add: aliasHost_def mergeUrl_def optionsOf_def oget_def)
  show ?thesis
    using wrong_options_throw [of JUndefined sampleHost sampleClock emptyWorld]
      wrong_options_throw [of "JStr ''/posts/1''" sampleHost sampleClock emptyWorld]
      wrong_options_throw [of "JObj [(''path'', JStr ''/posts/1''), (''requestType'', JStr ''promise'')]"
        sampleHost sampleClock emptyWorld]
      a b
    by simp
qed

text \<open>
  The promise adapter, for a class that implements promises: it resolves with whatever the
  success continuation is given, a response of any status code, and rejects with what the
  error continuation is given.
\<close>

lemma typePromise_resolves:
  "fst (doRequest P T w options) = Success r \<Longrightarrow>
   fst (typePromise P T w C options) = Resolved r"
  by (cases "doRequest P T w options" rule: prod_cases3) (simp add: typePromise_def)

lemma typePromise_rejects:
  "fst (doRequest P T w options) = Failure e \<Longrightarrow>
   fst (typePromise P T w C options) = Rejected e"
  by (cases "doRequest P T w options" rule: prod_cases3) (simp add: typePromise_def)

lemma mergeUrl_other:
  assumes "\<forall>u. urlParse P u k = None" and "k \<noteq> ''url''" and "k \<noteq> ''path''"
    and "k \<noteq> ''pathname''"
  shows "mergeUrl P options k = options k"
  using assms
  by (cases "oget options ''url''") (simp_all add: mergeUrl_def Let_def map_add_def)

lemma checkHeaders_other:
  "checkHeaders P options = Inr options' \<Longrightarrow> k \<noteq> ''headers'' \<Longrightarrow> options' k = options k"
  by (auto simp: checkHeaders_def split: if_splits sum.splits)

text \<open>
  C2. For every options record whose \<open>requestType\<close> is the string \<open>"promise"\<close>, the claim is
  that the entry point returns a promise that resolves for Ok and Fail and rejects on a
  transport error. The entry point looks for a promise class only when
  \<open>typeof _type === 'function'\<close>, and a string is not a function: whenever it does not
  throw, it returns the event emitter and the outcome is emitted as an event; no promise
  is made. (The parsed URL has no \<open>requestType\<close> property to put in the place of the
  caller's.)
\<close>

theorem promise_string_returns_emitter:
  assumes "oget (optionsOf (objs w) options) ''requestType'' = JStr ''promise''"
    and "\<forall>u. urlParse P u ''requestType'' = None"
    and "thrown (jfHttpRequest P T w options) = None"
  shows "returned (jfHttpRequest P T w options) = RetEvents \<and>
         (\<exists>kind payload. delivered (jfHttpRequest P T w options) = [Emitted kind payload])"
proof -
  let ?o0 = "optionsOf (objs w) options"
  let ?o1 = "aliasHost (mergeUrl P ?o0)"
  from assms(3) have t: "truthy options"
    by (auto simp: jfHttpRequest_def throws_def split: if_splits)
  from assms(3) t have url: "checkUrl P ?o0 = (None, ?o1)"
    by (auto simp: jfHttpRequest_def throws_def checkUrl_def Let_def split: if_splits)
  from assms(3) t url obtain o2 where hd: "checkHeaders P ?o1 = Inr o2"
    by (cases "checkHeaders P ?o1") (auto simp: jfHttpRequest_def throws_def)
  have "?o1 ''requestType'' = ?o0 ''requestType''"
    using assms(2) by (simp add: aliasHost_other mergeUrl_other)
  with checkHeaders_other [OF hd, of "''requestType''"] assms(1)
  have type: "oget o2 ''requestType'' = JStr ''promise''"
    by (simp add: oget_def)
  have run: "jfHttpRequest P T w options =
      returns RetEvents (typeEvents P T w (o2(''requestType'' := None)))"
    using t url hd type by (simp add: jfHttpRequest_def Let_def)
  obtain out io w' where d: "doRequest P T w (o2(''requestType'' := None)) = (out, io, w')"
    by (rule prod_cases3)
  show ?thesis
    unfolding run by (cases out) (simp_all add: returns_def typeEvents_def d)
qed

theorem promise_string_returns_emitter_witness:
  "returned (jfHttpRequest sampleHost sampleClock emptyWorld
      (JObj [(''requestType'', JStr ''promise''),
             (''url'', JStr ''http://jsonplaceholder.typicode.com/posts/1'')])) = RetEvents \<and>
   (\<exists>kind payload. delivered (jfHttpRequest sampleHost sampleClock emptyWorld
      (JObj [(''requestType'', JStr ''promise''),
             (''url'', JStr ''http://jsonplaceholder.typicode.com/posts/1'')]))
      = [Emitted kind payload])"
proof (rule promise_string_returns_emitter)
  let ?o = "JObj [(''requestType'', JStr ''promise''),
             (''url'', JStr ''http://jsonplaceholder.typicode.com/posts/1'')]"
  show "oget (optionsOf (objs emptyWorld) ?o) ''requestType'' = JStr ''promise''"
    by (simp add: optionsOf_def oget_def)
  show "\<forall>u. urlParse sampleHost u ''requestType'' = None"
    by (simp add: sampleHost_def sampleUrl_def)
  show "thrown (jfHttpRequest sampleHost sampleClock emptyWorld ?o) = None"
    by (simp add: jfHttpRequest_def checkUrl_def aliasHost_def mergeUrl_def optionsOf_def
          checkHeaders_def oget_def sampleHost_def sampleUrl_def Let_def returns_def
          split: prod.splits)
qed

lemma promise_request_emits_ok:
  "delivered (jfHttpRequest sampleHost sampleClock emptyWorld
      (JObj [(''requestType'', JStr ''promise''),
             (''url'', JStr ''http://jsonplaceholder.typicode.com/posts/1'')]))
     = [Emitted ''request-ok'' (JRef 0)]"
  by (simp add: jfHttpRequest_def checkUrl_def aliasHost_def mergeUrl_def optionsOf_def
        checkHeaders_def oget_def sample_defs Let_def returns_def typeEvents_def doRequest_def
        alloc_def onEnd_def decodeBody_def isOk_def js_or_def js_and_def js_ge_def js_lt_def
        split: prod.splits)

text \<open>
  With a promise class for \<open>requestType\<close> the entry point does return a promise, resolved
  with the response of a request that failed with status 404.
\<close>

lemma promise_class_resolves_fail:
  "returned (jfHttpRequest sampleHost sampleClock emptyWorld
      (JObj [(''hostname'', JStr ''jsonplaceholder.typicode.com''),
             (''path'', JStr ''/posts/100000''),
             (''requestType'', JFun (JObj [(''then'', JFun JUndefined),
                                            (''catch'', JFun JUndefined)]))]))
     = RetPromise (JFun (JObj [(''then'', JFun JUndefined), (''catch'', JFun JUndefined)])) \<and>
   delivered (jfHttpRequest sampleHost sampleClock emptyWorld
      (JObj [(''hostname'', JStr ''jsonplaceholder.typicode.com''),
             (''path'', JStr ''/posts/100000''),
             (''requestType'', JFun (JObj [(''then'', JFun JUndefined),
                                            (''catch'', JFun JUndefined)]))]))
     = [Resolved (JRef 0)] \<and>
   getp (objs (final (jfHttpRequest sampleHost sampleClock emptyWorld
      (JObj [(''hostname'', JStr ''jsonplaceholder.typicode.com''),
             (''path'', JStr ''/posts/100000''),
             (''requestType'', JFun (JObj [(''then'', JFun JUndefined),
                                            (''catch'', JFun JUndefined)]))]))))
     (JRef 0) ''statusCode'' = JNum 404"
  by (simp add: jfHttpRequest_def checkUrl_def aliasHost_def mergeUrl_def optionsOf_def
        checkHeaders_def oget_def sample_defs Let_def returns_def typePromise_def doRequest_def
        isPromise_def alloc_def onEnd_def decodeBody_def jfHttpHeaders_def hget_def hset_def
        split: prod.splits)

end
